theory Spec2Isabelle
  imports Main
begin

section \<open>Python values\<close>

text \<open>
  The program is \<^verbatim>\<open>streamy.py\<close>. Its configuration is whatever \<^verbatim>\<open>json.load\<close>
  returns, so it is modelled as a JSON value; a Python \<^verbatim>\<open>dict\<close> keeps insertion order
  and is an association list here. A Python \<^verbatim>\<open>str\<close> is a \<open>string\<close> whose characters
  stand for the code points below 256. An exception is a value of \<open>exn\<close>; the
  interpreter's message text is not modelled, the class name stands for it.
\<close>

datatype exn = KeyError | TypeError | AttributeError | ValueError | CvError

datatype json =
    JNull
  | JBool bool
  | JNum int
  | JStr string
  | JList "json list"
  | JObj "(string \<times> json) list"

fun str_of_exn :: "exn \<Rightarrow> string" where
  "str_of_exn KeyError = ''KeyError''"
| "str_of_exn TypeError = ''TypeError''"
| "str_of_exn AttributeError = ''AttributeError''"
| "str_of_exn ValueError = ''ValueError''"
| "str_of_exn CvError = ''cv2.error''"

subsection \<open>Strings\<close>

fun startswith :: "string \<Rightarrow> string \<Rightarrow> bool" where
  "startswith s [] = True"
| "startswith [] (p # ps) = False"
| "startswith (c # cs) (p # ps) = (c = p \<and> startswith cs ps)"

definition endswith :: "string \<Rightarrow> string \<Rightarrow> bool" where
  "endswith s p = startswith (rev s) (rev p)"

text \<open>\<^verbatim>\<open>sub in s\<close> on two strings: \<open>sub\<close> occurs somewhere in \<open>s\<close>.\<close>

fun str_contains :: "string \<Rightarrow> string \<Rightarrow> bool" where
  "str_contains [] sub = (sub = [])"
| "str_contains (c # cs) sub = (if startswith (c # cs) sub then True else str_contains cs sub)"

text \<open>
  \<^verbatim>\<open>str.strip()\<close> removes leading and trailing whitespace: the characters for which
  \<^verbatim>\<open>str.isspace\<close> holds, which below code point 256 are tab, line feed, vertical tab, form
  feed, carriage return, the four separators 0x1C..0x1F, space, 0x85 and 0xA0.
\<close>

definition is_space :: "char \<Rightarrow> bool" where
  "is_space c = (c \<in> set [CHR 0x09, CHR 0x0A, CHR 0x0B, CHR 0x0C, CHR 0x0D,
                           CHR 0x1C, CHR 0x1D, CHR 0x1E, CHR 0x1F, CHR 0x20,
                           CHR 0x85, CHR 0xA0])"

definition strip :: "string \<Rightarrow> string" where
  "strip s = rev (dropWhile is_space (rev (dropWhile is_space s)))"

definition is_digit :: "char \<Rightarrow> bool" where
  "is_digit c = (c \<in> set ''0123456789'')"

text \<open>The value of a decimal digit: its code point less that of the digit zero.\<close>

definition digit_val :: "char \<Rightarrow> nat" where
  "digit_val c = of_char c - 48"

text \<open>
  \<^verbatim>\<open>int(s)\<close> on the text of a \<^verbatim>\<open>(\d+)\<close> group. The result is never negative, so it is
  a \<open>nat\<close>. Anything that is not a non-empty run of digits is a \<^verbatim>\<open>ValueError\<close>.
\<close>

definition py_int :: "string \<Rightarrow> exn + nat" where
  "py_int s =
     (if s \<noteq> [] \<and> list_all is_digit s
      then Inr (foldl (\<lambda>acc c. 10 * acc + digit_val c) 0 s)
      else Inl ValueError)"

definition digit_char :: "nat \<Rightarrow> char" where
  "digit_char d = ''0123456789'' ! d"

fun str_nat :: "nat \<Rightarrow> string" where
  "str_nat n = (if n < 10 then [digit_char n] else str_nat (n div 10) @ [digit_char (n mod 10)])"

declare str_nat.simps [simp del]

text \<open>\<^verbatim>\<open>f"{n:04d}"\<close> for \<open>n \<ge> 0\<close>: decimal, padded with zeros on the left to four characters.\<close>

definition format_04d :: "nat \<Rightarrow> string" where
  "format_04d n = replicate (4 - length (str_nat n)) (CHR ''0'') @ str_nat n"

section \<open>Snapshot numbering\<close>

text \<open>
  \<^verbatim>\<open>glob.glob(os.path.join(desktop_path, "streamy-*.png"))\<close>: the names of the directory
  that start with \<^verbatim>\<open>streamy-\<close> and end with \<^verbatim>\<open>.png\<close> (the two not overlapping), each
  joined to the directory.
\<close>

definition fnmatch_streamy :: "string \<Rightarrow> bool" where
  "fnmatch_streamy name =
     (startswith name ''streamy-'' \<and> endswith name ''.png'' \<and> 12 \<le> length name)"

definition path_join :: "string \<Rightarrow> string \<Rightarrow> string" where
  "path_join dir name = dir @ ''/'' @ name"

definition glob_streamy :: "string \<Rightarrow> string list \<Rightarrow> string list" where
  "glob_streamy desktop_path listing = map (path_join desktop_path) (filter fnmatch_streamy listing)"

text \<open>
  \<^verbatim>\<open>re.search(r'streamy-(\d+)\.png', file)\<close>: the leftmost position of the path where
  \<^verbatim>\<open>streamy-\<close>, a maximal non-empty run of digits and \<^verbatim>\<open>.png\<close> follow each other; the
  result is group 1, the digits. (The character after the digits must be a dot, so a
  shorter run of digits never matches.)
\<close>

definition match_here :: "string \<Rightarrow> string option" where
  "match_here s =
     (if startswith s ''streamy-''
      then (let rest = drop 8 s; ds = takeWhile is_digit rest
            in if ds \<noteq> [] \<and> startswith (dropWhile is_digit rest) ''.png''
               then Some ds else None)
      else None)"

fun re_search :: "string \<Rightarrow> string option" where
  "re_search [] = None"
| "re_search (c # cs) =
     (case match_here (c # cs) of Some g \<Rightarrow> Some g | None \<Rightarrow> re_search cs)"

fun extract_numbers :: "string list \<Rightarrow> nat list" where
  "extract_numbers [] = []"
| "extract_numbers (file # files) =
     (case re_search file of
        None \<Rightarrow> extract_numbers files
      | Some g \<Rightarrow>
          (case py_int g of
             Inl e \<Rightarrow> extract_numbers files
           | Inr number \<Rightarrow> number # extract_numbers files))"

definition get_next_snapshot_number :: "string \<Rightarrow> string list \<Rightarrow> nat" where
  "get_next_snapshot_number desktop_path listing =
     (let existing_files = glob_streamy desktop_path listing
      in if existing_files = [] then 1
         else (let numbers = extract_numbers existing_files
               in if numbers = [] then 1 else Max (set numbers) + 1))"

definition snapshot_filename :: "nat \<Rightarrow> string" where
  "snapshot_filename snapshot_num = ''streamy-'' @ format_04d snapshot_num @ ''.png''"

section \<open>The saved printer configuration\<close>

text \<open>
  What \<^verbatim>\<open>os.path.exists\<close>, \<^verbatim>\<open>open\<close> and \<^verbatim>\<open>json.load\<close> find: no file, a file that cannot
  be read or parsed (either call raises), or a JSON document.
\<close>

datatype config_file = Missing | Unreadable | Document json

fun dict_set :: "string \<Rightarrow> json \<Rightarrow> (string \<times> json) list \<Rightarrow> (string \<times> json) list" where
  "dict_set k v [] = [(k, v)]"
| "dict_set k v (p # ps) = (if fst p = k then (k, v) # ps else p # dict_set k v ps)"

text \<open>
  \<^verbatim>\<open>key in config\<close>, \<^verbatim>\<open>config[key]\<close> and \<^verbatim>\<open>config[key] = v\<close> for a string key, on
  whatever value \<open>config\<close> is.
\<close>

fun py_contains :: "json \<Rightarrow> string \<Rightarrow> exn + bool" where
  "py_contains (JObj d) k = Inr (k \<in> set (map fst d))"
| "py_contains (JList xs) k = Inr (JStr k \<in> set xs)"
| "py_contains (JStr s) k = Inr (str_contains s k)"
| "py_contains JNull k = Inl TypeError"
| "py_contains (JBool b) k = Inl TypeError"
| "py_contains (JNum n) k = Inl TypeError"

fun py_getitem :: "json \<Rightarrow> string \<Rightarrow> exn + json" where
  "py_getitem (JObj d) k = (case map_of d k of None \<Rightarrow> Inl KeyError | Some v \<Rightarrow> Inr v)"
| "py_getitem c k = Inl TypeError"

fun py_setitem :: "json \<Rightarrow> string \<Rightarrow> json \<Rightarrow> exn + json" where
  "py_setitem (JObj d) k v = Inr (JObj (dict_set k v d))"
| "py_setitem c k v = Inl TypeError"

definition default_items :: "(string \<times> json) list" where
  "default_items =
     [(''recent_printers'', JList []),
      (''last_used_printer'', JStr []),
      (''include_timestamp'', JBool True)]"

definition default_config :: json where
  "default_config = JObj default_items"

text \<open>The loop \<^verbatim>\<open>for key in default_config: if key not in config: config[key] = ...\<close>.\<close>

fun ensure_keys :: "(string \<times> json) list \<Rightarrow> json \<Rightarrow> exn + json" where
  "ensure_keys [] config = Inr config"
| "ensure_keys ((key, dflt) # rest) config =
     (case py_contains config key of
        Inl e \<Rightarrow> Inl e
      | Inr present \<Rightarrow>
          (if present then ensure_keys rest config
           else (case py_setitem config key dflt of
                   Inl e \<Rightarrow> Inl e
                 | Inr config' \<Rightarrow> ensure_keys rest config')))"

text \<open>
  \<open>load_config\<close>: the result is \<open>Inl\<close> if an exception leaves the method. The body of the
  \<^verbatim>\<open>try\<close> is \<open>ensure_keys\<close> after the read; \<^verbatim>\<open>except Exception\<close> returns the defaults.
\<close>

definition load_config :: "config_file \<Rightarrow> exn + json" where
  "load_config f =
     (case f of
        Missing \<Rightarrow> Inr default_config
      | Unreadable \<Rightarrow> Inr default_config
      | Document doc \<Rightarrow>
          (case ensure_keys default_items doc of
             Inl e \<Rightarrow> Inr default_config
           | Inr config \<Rightarrow> Inr config))"

text \<open>
  A \<^verbatim>\<open>PrinterConfig\<close> object with the file it manages: \<open>config\<close> is \<^verbatim>\<open>self.config\<close>,
  \<open>CONFIG_FILE\<close> the content of \<^verbatim>\<open>streamy_config.json\<close>, and \<open>writable\<close> tells whether
  \<^verbatim>\<open>open(..., 'w')\<close> succeeds (when it raises, \<open>save_config\<close> prints and the file is as
  before). What \<^verbatim>\<open>json.dump\<close> writes is read back by \<^verbatim>\<open>json.load\<close> as the same value.
\<close>

record PrinterConfig =
  config :: json
  CONFIG_FILE :: config_file
  writable :: bool

definition save_config :: "PrinterConfig \<Rightarrow> PrinterConfig" where
  "save_config pc = (if writable pc then pc\<lparr>CONFIG_FILE := Document (config pc)\<rparr> else pc)"

definition PrinterConfig_init :: "config_file \<Rightarrow> bool \<Rightarrow> exn + PrinterConfig" where
  "PrinterConfig_init f w =
     (case load_config f of
        Inl e \<Rightarrow> Inl e
      | Inr c \<Rightarrow> Inr \<lparr>config = c, CONFIG_FILE = f, writable = w\<rparr>)"

text \<open>
  \<open>add_printer\<close>. \<^verbatim>\<open>self.config["recent_printers"]\<close> must be a list for \<^verbatim>\<open>remove\<close> and
  \<^verbatim>\<open>insert\<close> to exist; on a string or a dict \<^verbatim>\<open>in\<close> works and the method call raises
  \<^verbatim>\<open>AttributeError\<close>, on the other values \<^verbatim>\<open>in\<close> raises \<^verbatim>\<open>TypeError\<close>. \<^verbatim>\<open>list.remove\<close>
  removes the first equal element.
\<close>

definition add_printer :: "string \<Rightarrow> PrinterConfig \<Rightarrow> exn + PrinterConfig" where
  "add_printer ip_address pc =
     (if ip_address = [] then Inr pc
      else (case py_getitem (config pc) ''recent_printers'' of
              Inl e \<Rightarrow> Inl e
            | Inr (JList xs) \<Rightarrow>
                (let xs1 = (if JStr ip_address \<in> set xs then remove1 (JStr ip_address) xs else xs);
                     xs2 = JStr ip_address # xs1;
                     xs3 = take 5 xs2
                 in (case py_setitem (config pc) ''recent_printers'' (JList xs3) of
                       Inl e \<Rightarrow> Inl e
                     | Inr c1 \<Rightarrow>
                         (case py_setitem c1 ''last_used_printer'' (JStr ip_address) of
                            Inl e \<Rightarrow> Inl e
                          | Inr c2 \<Rightarrow> Inr (save_config (pc\<lparr>config := c2\<rparr>)))))
            | Inr (JStr s) \<Rightarrow> Inl AttributeError
            | Inr (JObj d) \<Rightarrow> Inl AttributeError
            | Inr other \<Rightarrow> Inl TypeError))"

definition get_recent_printers :: "PrinterConfig \<Rightarrow> exn + json" where
  "get_recent_printers pc = py_getitem (config pc) ''recent_printers''"

definition get_last_used_printer :: "PrinterConfig \<Rightarrow> exn + json" where
  "get_last_used_printer pc = py_getitem (config pc) ''last_used_printer''"

definition set_include_timestamp :: "bool \<Rightarrow> PrinterConfig \<Rightarrow> exn + PrinterConfig" where
  "set_include_timestamp b pc =
     (case py_setitem (config pc) ''include_timestamp'' (JBool b) of
        Inl e \<Rightarrow> Inl e
      | Inr c \<Rightarrow> Inr (save_config (pc\<lparr>config := c\<rparr>)))"

text \<open>\<^verbatim>\<open>self.config.get("include_timestamp", True)\<close>; only a dict has \<^verbatim>\<open>get\<close>.\<close>

definition get_include_timestamp :: "PrinterConfig \<Rightarrow> exn + json" where
  "get_include_timestamp pc =
     (case config pc of
        JObj d \<Rightarrow> (case map_of d ''include_timestamp'' of None \<Rightarrow> Inr (JBool True) | Some v \<Rightarrow> Inr v)
      | other \<Rightarrow> Inl AttributeError)"

section \<open>The application\<close>

text \<open>
  What the program does to the world outside it is recorded, in order, as a list of
  events: every \<^verbatim>\<open>cv2.VideoCapture\<close> constructed (numbered in order of construction,
  with the URL and whether \<^verbatim>\<open>isOpened()\<close> holds), every \<^verbatim>\<open>read\<close> and \<^verbatim>\<open>release\<close> on
  one, every start and stop of the 33 ms video timer, every message box and every
  \<^verbatim>\<open>cv2.imwrite\<close>. Frames are opaque, a number stands for one.
\<close>

type_synonym frame = nat

datatype color = RED | YELLOW | GREEN | GRAY

datatype image = NoConnectionImage | VideoImage frame string

datatype box = Critical | Warning

datatype event =
    VideoCapture nat string bool
  | CamRead nat bool
  | CamRelease nat
  | TimerStart
  | TimerStop
  | MessageBox box string string
  | ImWrite string frame "string option" bool

text \<open>
  What the camera answers during one \<open>connect_to_camera\<close>: whether the capture opened,
  the first frame read (\<open>None\<close> when \<^verbatim>\<open>ret\<close> is false or the frame is \<^verbatim>\<open>None\<close>), and the
  frame size it reports. What \<^verbatim>\<open>cv2.imwrite\<close> does: write the file, return false, or
  raise.
\<close>

record source_reply =
  opened :: bool
  first_frame :: "frame option"
  cap_width :: int
  cap_height :: int

datatype imwrite_result = Written | NotWritten | WriteRaises

text \<open>
  The fields of \<^verbatim>\<open>StreamyApp\<close> and of the widgets it reads back. \<open>printers\<close> is
  \<^verbatim>\<open>self.config\<close>; \<open>indicator\<close> and \<open>status_label\<close> are the colour of the status dot and
  the text of the status label; \<open>timer_active\<close> is the video timer; \<open>status_timer\<close> is the
  single-shot timer, \<open>Some ms\<close> when it is active with \<open>ms\<close> milliseconds left;
  \<open>ip_text\<close> and \<open>ip_items\<close> are the combo box; \<open>desktop\<close> lists the file names in the
  Desktop directory \<open>desktop_path\<close>; \<open>captures\<close> counts the captures constructed.
\<close>

record app =
  printers :: PrinterConfig
  camera :: "nat option"
  camera_url :: "string option"
  is_running :: bool
  current_frame :: "frame option"
  frame_width :: int
  frame_height :: int
  previous_status :: string
  indicator :: color
  status_label :: string
  timer_active :: bool
  status_timer :: "nat option"
  snapshot_btn :: bool
  video_frame :: image
  ip_text :: string
  ip_items :: "string list"
  timestamp_checkbox :: bool
  desktop_path :: string
  desktop :: "string list"
  captures :: nat
  events :: "event list"

definition emit :: "event list \<Rightarrow> app \<Rightarrow> app" where
  "emit es s = s\<lparr>events := events s @ es\<rparr>"

definition show_no_connection_message :: "app \<Rightarrow> app" where
  "show_no_connection_message s = s\<lparr>video_frame := NoConnectionImage\<rparr>"

fun is_JStr :: "json \<Rightarrow> bool" where
  "is_JStr (JStr s) = True"
| "is_JStr other = False"

fun str_of :: "json \<Rightarrow> string" where
  "str_of (JStr s) = s"
| "str_of other = []"

text \<open>
  \<open>populate_printer_combobox\<close>: \<^verbatim>\<open>clear()\<close> empties the items and the edit text;
  \<^verbatim>\<open>addItems\<close> on the empty box makes the first item current. \<^verbatim>\<open>addItems\<close> takes a list of
  strings; for any other value the conversion of the argument raises \<^verbatim>\<open>TypeError\<close>.
  The result is the exception raised, if any, with the state reached.
\<close>

definition populate_printer_combobox :: "app \<Rightarrow> exn option \<times> app" where
  "populate_printer_combobox s =
     (case get_recent_printers (printers s) of
        Inl e \<Rightarrow> (Some e, s)
      | Inr recent_printers \<Rightarrow>
          (let s1 = s\<lparr>ip_items := [], ip_text := []\<rparr>
           in (case recent_printers of
                 JList xs \<Rightarrow>
                   (if list_all is_JStr xs
                    then (None, s1\<lparr>ip_items := map str_of xs,
                                   ip_text := (case xs of [] \<Rightarrow> [] | x # rest \<Rightarrow> str_of x)\<rparr>)
                    else (Some TypeError, s1))
               | other \<Rightarrow> (Some TypeError, s1))))"

definition reset_status :: "app \<Rightarrow> app" where
  "reset_status s =
     (if previous_status s \<noteq> [] then s\<lparr>status_label := previous_status s\<rparr> else s)"

definition show_temporary_status :: "string \<Rightarrow> nat \<Rightarrow> app \<Rightarrow> app" where
  "show_temporary_status message duration_ms s =
     s\<lparr>previous_status := status_label s,
       status_label := message,
       status_timer := Some duration_ms\<rparr>"

text \<open>
  The single-shot status timer, as the event loop runs it: when \<open>ms\<close> milliseconds pass
  and the timer is active, it fires \<open>reset_status\<close> once if its time is up, and has less
  time left otherwise.
\<close>

definition elapse :: "nat \<Rightarrow> app \<Rightarrow> app" where
  "elapse ms s =
     (case status_timer s of
        None \<Rightarrow> s
      | Some left \<Rightarrow>
          (if left \<le> ms then reset_status (s\<lparr>status_timer := None\<rparr>)
           else s\<lparr>status_timer := Some (left - ms)\<rparr>))"

definition disconnect_camera :: "app \<Rightarrow> app" where
  "disconnect_camera s =
     (case camera s of
        None \<Rightarrow> s
      | Some cam \<Rightarrow>
          show_no_connection_message
            ((emit [TimerStop, CamRelease cam] s)
               \<lparr>timer_active := False,
                is_running := False,
                camera := None,
                camera_url := None,
                indicator := GRAY,
                status_label := ''Not connected'',
                snapshot_btn := False\<rparr>))"

definition connection_error_text :: "string \<Rightarrow> string" where
  "connection_error_text rtsp_url =
     ''Could not connect to the camera at '' @ rtsp_url @ [CHR ''.'', CHR 0x0A, CHR 0x0A]
     @ ''Please check that the printer is powered on, connected to the network, ''
     @ ''and has the camera enabled.''"

definition video_error_text :: "string \<Rightarrow> string" where
  "video_error_text rtsp_url =
     ''Connected to '' @ rtsp_url @ '' but could not read video frames.'' @ [CHR 0x0A, CHR 0x0A]
     @ ''Please check that the printer's camera is functioning properly.''"

text \<open>
  The body of the \<^verbatim>\<open>try\<close> in \<open>connect_to_camera\<close>, from the construction of the capture
  on. The result is the exception raised, if any, with the state reached when it was
  raised. The calls into OpenCV are taken by what they return; the exceptions of the
  body come from \<open>add_printer\<close> and \<open>populate_printer_combobox\<close>.
\<close>

definition connect_body :: "source_reply \<Rightarrow> string \<Rightarrow> string \<Rightarrow> app \<Rightarrow> exn option \<times> app" where
  "connect_body r ip_address rtsp_url s =
     (let cam = captures s;
          s1 = emit [VideoCapture cam rtsp_url (opened r)] (s\<lparr>captures := Suc cam\<rparr>)
      in if \<not> opened r
         then (None,
               emit [MessageBox Critical ''Connection Error'' (connection_error_text rtsp_url)]
                 (s1\<lparr>indicator := RED, status_label := ''Not connected''\<rparr>))
         else (case first_frame r of
                 None \<Rightarrow>
                   (None,
                    emit [CamRead cam False,
                          MessageBox Critical ''Video Error'' (video_error_text rtsp_url),
                          CamRelease cam]
                      (s1\<lparr>indicator := YELLOW,
                          status_label := ''Connected but not able to stream''\<rparr>))
               | Some test_frame \<Rightarrow>
                   (let s2 = (emit [CamRead cam True] s1)
                               \<lparr>indicator := GREEN,
                                status_label := ''Connected'',
                                frame_width := cap_width r,
                                frame_height := cap_height r,
                                camera := Some cam,
                                camera_url := Some rtsp_url\<rparr>
                    in (case add_printer ip_address (printers s2) of
                          Inl e \<Rightarrow> (Some e, s2)
                        | Inr pc \<Rightarrow>
                            (case populate_printer_combobox (s2\<lparr>printers := pc\<rparr>) of
                               (Some e, s3) \<Rightarrow> (Some e, s3)
                             | (None, s3) \<Rightarrow>
                                 (None,
                                  emit [TimerStart]
                                    (s3\<lparr>snapshot_btn := True,
                                        is_running := True,
                                        timer_active := True\<rparr>)))))))"

definition rtsp_url_of :: "string \<Rightarrow> string" where
  "rtsp_url_of ip_address = ''rtsp://'' @ ip_address @ '':554/video''"

text \<open>
  \<open>connect_to_camera\<close>. \<^verbatim>\<open>QApplication.processEvents()\<close> is taken to find no pending
  event.
\<close>

definition connect_to_camera :: "source_reply \<Rightarrow> app \<Rightarrow> app" where
  "connect_to_camera r s =
     (let ip_address = strip (ip_text s)
      in if ip_address = []
         then emit [MessageBox Critical ''Error'' ''Please enter a printer IP address''] s
         else (let rtsp_url = rtsp_url_of ip_address;
                   s1 = s\<lparr>indicator := YELLOW, status_label := ''Connecting...''\<rparr>;
                   s2 = (if camera s1 \<noteq> None then disconnect_camera s1 else s1)
               in (case connect_body r ip_address rtsp_url s2 of
                     (None, s3) \<Rightarrow> s3
                   | (Some e, s3) \<Rightarrow>
                       emit [MessageBox Critical ''Error''
                               (''An error occurred while trying to connect:''
                                @ [CHR 0x0A, CHR 0x0A] @ str_of_exn e)]
                         (s3\<lparr>indicator := RED,
                             status_label := ''Error: '' @ str_of_exn e\<rparr>))))"

text \<open>
  \<open>take_snapshot\<close>, given what \<^verbatim>\<open>cv2.imwrite\<close> does and the formatted time \<open>now\<close>. The
  return value of \<^verbatim>\<open>imwrite\<close> is not looked at.
\<close>

definition take_snapshot :: "imwrite_result \<Rightarrow> string \<Rightarrow> app \<Rightarrow> app" where
  "take_snapshot w now s =
     (case current_frame s of
        None \<Rightarrow> emit [MessageBox Warning ''Snapshot Error'' ''No video stream is active''] s
      | Some fr \<Rightarrow>
          (if \<not> is_running s
           then emit [MessageBox Warning ''Snapshot Error'' ''No video stream is active''] s
           else (let snapshot_num = get_next_snapshot_number (desktop_path s) (desktop s);
                     filename = snapshot_filename snapshot_num;
                     filepath = path_join (desktop_path s) filename;
                     timestamp = (if timestamp_checkbox s then Some now else None)
                 in (case w of
                       WriteRaises \<Rightarrow>
                         emit [MessageBox Critical ''Snapshot Error''
                                 (''Failed to save snapshot: '' @ str_of_exn CvError)] s
                     | Written \<Rightarrow>
                         show_temporary_status (''Snapshot saved: '' @ filename) 5000
                           (emit [ImWrite filepath fr timestamp True]
                              (s\<lparr>desktop := List.insert filename (desktop s)\<rparr>))
                     | NotWritten \<Rightarrow>
                         show_temporary_status (''Snapshot saved: '' @ filename) 5000
                           (emit [ImWrite filepath fr timestamp False] s)))))"

text \<open>\<open>update_frame\<close>, given what \<^verbatim>\<open>self.camera.read()\<close> returns and the formatted time.\<close>

definition update_frame :: "frame option \<Rightarrow> string \<Rightarrow> app \<Rightarrow> app" where
  "update_frame rd now s =
     (case camera s of
        None \<Rightarrow> s
      | Some cam \<Rightarrow>
          (if \<not> is_running s then s
           else (case rd of
                   None \<Rightarrow>
                     disconnect_camera
                       ((emit [CamRead cam False] s)
                          \<lparr>indicator := YELLOW,
                           status_label := ''Connected but not able to stream''\<rparr>)
                 | Some fr \<Rightarrow>
                     (let s1 = emit [CamRead cam True] s;
                          s2 = (if indicator s1 \<noteq> GREEN
                                then s1\<lparr>indicator := GREEN, status_label := ''Connected''\<rparr>
                                else s1)
                      in s2\<lparr>current_frame := Some fr, video_frame := VideoImage fr now\<rparr>))))"



definition blank_app :: "PrinterConfig \<Rightarrow> bool \<Rightarrow> string \<Rightarrow> string list \<Rightarrow> app" where
  "blank_app pc checked dpath files =
     \<lparr>printers = pc,
      camera = None,
      camera_url = None,
      is_running = False,
      current_frame = None,
      frame_width = 640,
      frame_height = 480,
      previous_status = ''Not connected'',
      indicator = GRAY,
      status_label = ''Not connected'',
      timer_active = False,
      status_timer = None,
      snapshot_btn = False,
      video_frame = NoConnectionImage,
      ip_text = [],
      ip_items = [],
      timestamp_checkbox = checked,
      desktop_path = dpath,
      desktop = files,
      captures = 0,
      events = []\<rparr>"


text \<open>
  The commands of the user and of the event loop, each with what the outside world
  answers to it: the user enters an address and connects, disconnects, asks for a
  snapshot; the video timer fires; time passes for the status timer.
\<close>

datatype command =
    Connect string source_reply
  | Disconnect
  | Poll "frame option" string
  | Snapshot imwrite_result string
  | Elapse nat

fun step :: "app \<Rightarrow> command \<Rightarrow> app" where
  "step s (Connect address r) = connect_to_camera r (s\<lparr>ip_text := address\<rparr>)"
| "step s Disconnect = disconnect_camera s"
| "step s (Poll rd now) = update_frame rd now s"
| "step s (Snapshot w now) = take_snapshot w now s"
| "step s (Elapse ms) = elapse ms s"


text \<open>
  Reading the event list: the captures open after it and whether the video timer runs,
  and whether every capture was constructed while no capture was open and the video
  timer was stopped, with at most one capture open after every event.
\<close>

fun ev_step :: "nat list \<times> bool \<Rightarrow> event \<Rightarrow> nat list \<times> bool" where
  "ev_step (opn, polling) (VideoCapture cam url ok) = (if ok then cam # opn else opn, polling)"
| "ev_step (opn, polling) (CamRelease cam) = (removeAll cam opn, polling)"
| "ev_step (opn, polling) TimerStart = (opn, True)"
| "ev_step (opn, polling) TimerStop = (opn, False)"
| "ev_step (opn, polling) (CamRead cam ok) = (opn, polling)"
| "ev_step (opn, polling) (MessageBox b title msg) = (opn, polling)"
| "ev_step (opn, polling) (ImWrite path fr ts ok) = (opn, polling)"

fun ev_ok :: "nat list \<times> bool \<Rightarrow> event \<Rightarrow> bool" where
  "ev_ok (opn, polling) (VideoCapture cam url ok) = (opn = [] \<and> \<not> polling)"
| "ev_ok (opn, polling) (CamRead cam ok) = (cam \<in> set opn)"
| "ev_ok (opn, polling) other = True"

fun one_session :: "nat list \<times> bool \<Rightarrow> event list \<Rightarrow> bool" where
  "one_session st [] = True"
| "one_session st (e # es) =
     (ev_ok st e \<and> length (fst (ev_step st e)) \<le> 1 \<and> one_session (ev_step st e) es)"

text \<open>
  What holds of every state the application reaches: the event list is that of one
  session at a time, the capture open after it is the one \<open>camera\<close> holds, the video
  timer runs as \<open>timer_active\<close> says, and without a camera neither the timer nor
  \<open>is_running\<close> is on.
\<close>

definition replay :: "event list \<Rightarrow> nat list \<times> bool" where
  "replay es = foldl ev_step ([], False) es"

definition session_inv :: "app \<Rightarrow> bool" where
  "session_inv s =
     (one_session ([], False) (events s)
      \<and> replay (events s) = ((case camera s of None \<Rightarrow> [] | Some cam \<Rightarrow> [cam]), timer_active s)
      \<and> (camera s = None \<longrightarrow> \<not> timer_active s \<and> \<not> is_running s))"

text \<open>
  Calling \<open>add_printer\<close> with one address after the other, as successive connections
  do; and the \<^verbatim>\<open>PrinterConfig\<close> made when there is no configuration file.
\<close>

fun add_printers :: "string list \<Rightarrow> PrinterConfig \<Rightarrow> exn + PrinterConfig" where
  "add_printers [] pc = Inr pc"
| "add_printers (a # rest) pc =
     (case add_printer a pc of Inl e \<Rightarrow> Inl e | Inr pc' \<Rightarrow> add_printers rest pc')"

definition new_config :: PrinterConfig where
  "new_config = \<lparr>config = default_config, CONFIG_FILE = Missing, writable = True\<rparr>"

section \<open>Concrete states\<close>

text \<open>
  A camera that opens and delivers a frame; the application started with no
  configuration file and an empty Desktop; the same after connecting to 10.0.0.5; and
  after the video timer has delivered one frame.
\<close>

definition ok_reply :: source_reply where
  "ok_reply = \<lparr>opened = True, first_frame = Some 7, cap_width = 640, cap_height = 480\<rparr>"

definition fresh_app :: app where
  "fresh_app =
     blank_app \<lparr>config = default_config, CONFIG_FILE = Missing, writable = True\<rparr>
       True ''/home/u/Desktop'' []"

definition connected_app :: app where
  "connected_app = step fresh_app (Connect ''10.0.0.5'' ok_reply)"

definition streaming_app :: app where
  "streaming_app = step connected_app (Poll (Some 8) ''2026-01-01 10:00:00'')"

section \<open>Properties\<close>

subsection \<open>Disconnecting\<close>

lemma disconnect_no_camera: "camera s = None \<Longrightarrow> disconnect_camera s = s"
  by (simp add: disconnect_camera_def)

lemma disconnect_fields:
  "camera s = Some cam \<Longrightarrow>
   disconnect_camera s =
     s\<lparr>events := events s @ [TimerStop, CamRelease cam], timer_active := False,
       is_running := False, camera := None, camera_url := None, indicator := GRAY,
       status_label := ''Not connected'', snapshot_btn := False,
       video_frame := NoConnectionImage\<rparr>"
  by (simp add: disconnect_camera_def emit_def show_no_connection_message_def)

lemma camera_disconnect [simp]: "camera (disconnect_camera s) = None"
  by (cases "camera s") (simp_all add: disconnect_no_camera disconnect_fields)





subsection \<open>A failed read while streaming\<close>

lemma update_frame_read_failure:
  "camera s = Some cam \<Longrightarrow> is_running s \<Longrightarrow>
   update_frame None now s =
     disconnect_camera
       ((emit [CamRead cam False] s)
          \<lparr>indicator := YELLOW, status_label := ''Connected but not able to stream''\<rparr>)"
  by (simp add: update_frame_def)

text \<open>
  Claim C2. While streaming from camera 0 with the label "Connected", a read that
  yields no frame is followed by \<open>disconnect_camera\<close>, which runs after the indicator
  and the label were set to yellow and "Connected but not able to stream" and sets
  them again: the session is torn down, and the indicator ends gray with the label
  "Not connected", not "Connected but not able to stream".
\<close>

theorem update_frame_read_failure_not_degraded:
  "status_label (update_frame None ''2026-01-01 10:00:01'' streaming_app) = ''Not connected''
   \<and> indicator (update_frame None ''2026-01-01 10:00:01'' streaming_app) = GRAY
   \<and> camera (update_frame None ''2026-01-01 10:00:01'' streaming_app) = None
   \<and> events (update_frame None ''2026-01-01 10:00:01'' streaming_app)
       = events streaming_app @ [CamRead 0 False, TimerStop, CamRelease 0]
   \<and> status_label streaming_app = ''Connected''
   \<and> camera streaming_app = Some 0
   \<and> is_running streaming_app"
  by code_simp

subsection \<open>The transient status message\<close>

lemma show_temporary_status_fields:
  "status_label (show_temporary_status m d s) = m"
  "previous_status (show_temporary_status m d s) = status_label s"
  "status_timer (show_temporary_status m d s) = Some d"
  by (simp_all add: show_temporary_status_def)












subsection \<open>One session at a time\<close>



lemma session_inv_status [simp]:
  "session_inv (s\<lparr>indicator := c, status_label := l\<rparr>) = session_inv s"
  by (simp add: session_inv_def)


















subsection \<open>The recent list\<close>

lemma map_of_dict_set: "map_of (dict_set k v d) k' = (if k' = k then Some v else map_of d k')"
  by (induction d) auto

lemma keys_dict_set: "set (map fst (dict_set k v d)) = insert k (set (map fst d))"
  by (induction d) auto

lemma get_recent_is_obj:
  "get_recent_printers pc = Inr v \<Longrightarrow> \<exists>d. config pc = JObj d \<and> map_of d ''recent_printers'' = Some v"
  by (cases "config pc") (auto simp: get_recent_printers_def split: option.splits)

lemma add_printer_list:
  assumes "get_recent_printers pc = Inr (JList xs)" and "a \<noteq> []"
  shows "\<exists>d. config pc = JObj d \<and>
           add_printer a pc =
             Inr (save_config (pc\<lparr>config :=
                    JObj (dict_set ''last_used_printer'' (JStr a)
                            (dict_set ''recent_printers''
                               (JList (take 5 (JStr a # remove1 (JStr a) xs))) d))\<rparr>))"
proof -
  obtain d where d: "config pc = JObj d" "map_of d ''recent_printers'' = Some (JList xs)"
    using get_recent_is_obj [OF assms(1)] by blast
  have r: "(if JStr a \<in> set xs then remove1 (JStr a) xs else xs) = remove1 (JStr a) xs"
    by (simp add: remove1_idem)
  show ?thesis
    using d assms(2) by (simp add: add_printer_def Let_def r del: remove1.simps take_Cons')
qed

lemma accessors_save_config:
  "get_recent_printers (save_config pc) = get_recent_printers pc"
  "get_last_used_printer (save_config pc) = get_last_used_printer pc"
  "get_include_timestamp (save_config pc) = get_include_timestamp pc"
  "config (save_config pc) = config pc"
  "writable (save_config pc) = writable pc"
  by (simp_all add: save_config_def get_recent_printers_def get_last_used_printer_def
        get_include_timestamp_def)

lemma distinct_take_front:
  "distinct xs \<Longrightarrow> distinct (take n (x # remove1 x xs))"
  by (rule distinct_take) simp

text \<open>
  Claim C5. \<open>add_printer\<close> with an empty address changes nothing. With a non-empty
  address and a recent list \<open>xs\<close>, it does not raise, and afterwards the recent list is
  the address followed by \<open>xs\<close> without its first entry equal to the address, cut to
  five entries; the last used printer is the address; and the file, when it can be
  written, holds the new record. The list has at most five entries and starts with the
  address; if \<open>xs\<close> had no duplicates, neither has the new list, and the address occurs
  in it once. Adding 10.0.0.5, 10.0.0.6, 10.0.0.5 to the empty list gives 10.0.0.5,
  10.0.0.6 with 10.0.0.5 last used; adding six different addresses keeps the last five.
\<close>

theorem add_printer_recent_list:
  assumes "get_recent_printers pc = Inr (JList xs)"
  shows "add_printer [] pc = Inr pc
     \<and> (a \<noteq> [] \<longrightarrow>
          (\<exists>pc'. add_printer a pc = Inr pc'
             \<and> get_recent_printers pc' = Inr (JList (take 5 (JStr a # remove1 (JStr a) xs)))
             \<and> get_last_used_printer pc' = Inr (JStr a)
             \<and> (writable pc \<longrightarrow> CONFIG_FILE pc' = Document (config pc'))))
     \<and> length (take 5 (JStr a # remove1 (JStr a) xs)) \<le> 5
     \<and> hd (take 5 (JStr a # remove1 (JStr a) xs)) = JStr a
     \<and> (distinct xs \<longrightarrow>
          distinct (take 5 (JStr a # remove1 (JStr a) xs))
          \<and> take 5 (JStr a # remove1 (JStr a) xs) = take 5 (JStr a # removeAll (JStr a) xs))
     \<and> (case add_printers [''10.0.0.5'', ''10.0.0.6'', ''10.0.0.5''] new_config of
          Inl e \<Rightarrow> False
        | Inr pc3 \<Rightarrow>
            get_recent_printers pc3 = Inr (JList [JStr ''10.0.0.5'', JStr ''10.0.0.6''])
            \<and> get_last_used_printer pc3 = Inr (JStr ''10.0.0.5''))
     \<and> (case add_printers [''a1'', ''a2'', ''a3'', ''a4'', ''a5'', ''a6''] new_config of
          Inl e \<Rightarrow> False
        | Inr pc6 \<Rightarrow>
            get_recent_printers pc6
              = Inr (JList [JStr ''a6'', JStr ''a5'', JStr ''a4'', JStr ''a3'', JStr ''a2'']))"
proof -
  have empty: "add_printer [] pc = Inr pc" by (simp add: add_printer_def)
  have nonempty: "\<exists>pc'. add_printer a pc = Inr pc'
             \<and> get_recent_printers pc' = Inr (JList (take 5 (JStr a # remove1 (JStr a) xs)))
             \<and> get_last_used_printer pc' = Inr (JStr a)
             \<and> (writable pc \<longrightarrow> CONFIG_FILE pc' = Document (config pc'))" if ne: "a \<noteq> []"
  proof -
    obtain d where d: "config pc = JObj d"
      "add_printer a pc =
         Inr (save_config (pc\<lparr>config :=
                JObj (dict_set ''last_used_printer'' (JStr a)
                        (dict_set ''recent_printers''
                           (JList (take 5 (JStr a # remove1 (JStr a) xs))) d))\<rparr>))"
      using add_printer_list [OF assms ne] by blast
    show ?thesis
      unfolding d(2)
      by (simp add: accessors_save_config get_recent_printers_def get_last_used_printer_def
            map_of_dict_set save_config_def del: remove1.simps take_Cons')
  qed
  have len: "length (take 5 (JStr a # remove1 (JStr a) xs)) \<le> 5" by simp
  have front: "hd (take 5 (JStr a # remove1 (JStr a) xs)) = JStr a" by (simp add: take_Cons')
  have dist: "distinct (take 5 (JStr a # remove1 (JStr a) xs))
          \<and> take 5 (JStr a # remove1 (JStr a) xs) = take 5 (JStr a # removeAll (JStr a) xs)"
    if "distinct xs"
    using that distinct_take_front [OF that, of 5 "JStr a"]
    by (simp add: distinct_remove1_removeAll del: take_Cons')
  have ex3: "(case add_printers [''10.0.0.5'', ''10.0.0.6'', ''10.0.0.5''] new_config of
          Inl e \<Rightarrow> False
        | Inr pc3 \<Rightarrow>
            get_recent_printers pc3 = Inr (JList [JStr ''10.0.0.5'', JStr ''10.0.0.6''])
            \<and> get_last_used_printer pc3 = Inr (JStr ''10.0.0.5''))"
    by code_simp
  have ex6: "(case add_printers [''a1'', ''a2'', ''a3'', ''a4'', ''a5'', ''a6''] new_config of
          Inl e \<Rightarrow> False
        | Inr pc6 \<Rightarrow>
            get_recent_printers pc6
              = Inr (JList [JStr ''a6'', JStr ''a5'', JStr ''a4'', JStr ''a3'', JStr ''a2'']))"
    by code_simp
  show ?thesis
    using empty nonempty len front dist ex3 ex6 by blast
qed

lemma new_config_recent: "get_recent_printers new_config = Inr (JList [])"
  by code_simp

theorem add_printer_recent_list_witness:
  "get_recent_printers new_config = Inr (JList [])
   \<and> add_printer [] new_config = Inr new_config
   \<and> (\<exists>pc'. add_printer ''10.0.0.5'' new_config = Inr pc'
         \<and> get_recent_printers pc' = Inr (JList [JStr ''10.0.0.5''])
         \<and> get_last_used_printer pc' = Inr (JStr ''10.0.0.5''))"
proof -
  have ne: "''10.0.0.5'' \<noteq> []" by simp
  have t: "take 5 (JStr ''10.0.0.5'' # remove1 (JStr ''10.0.0.5'') []) = [JStr ''10.0.0.5'']"
    by simp
  note th = add_printer_recent_list [OF new_config_recent, of "''10.0.0.5''"]
  from th have a: "add_printer [] new_config = Inr new_config" by (rule conjunct1)
  from th [THEN conjunct2, THEN conjunct1] ne
  have "\<exists>pc'. add_printer ''10.0.0.5'' new_config = Inr pc'
         \<and> get_recent_printers pc'
             = Inr (JList (take 5 (JStr ''10.0.0.5'' # remove1 (JStr ''10.0.0.5'') [])))
         \<and> get_last_used_printer pc' = Inr (JStr ''10.0.0.5'')
         \<and> (writable new_config \<longrightarrow> CONFIG_FILE pc' = Document (config pc'))"
    by (rule mp)
  then have b: "\<exists>pc'. add_printer ''10.0.0.5'' new_config = Inr pc'
         \<and> get_recent_printers pc' = Inr (JList [JStr ''10.0.0.5''])
         \<and> get_last_used_printer pc' = Inr (JStr ''10.0.0.5'')"
    unfolding t by blast
  show ?thesis using new_config_recent a b by blast
qed

subsection \<open>Connecting\<close>

lemma disconnect_status:
  "disconnect_camera (s\<lparr>indicator := c, status_label := l\<rparr>)
     = (if camera s = None then s\<lparr>indicator := c, status_label := l\<rparr> else disconnect_camera s)"
  by (cases "camera s") (simp_all add: disconnect_no_camera disconnect_fields)

lemma disconnect_keeps:
  "captures (disconnect_camera s) = captures s"
  "printers (disconnect_camera s) = printers s"
  "ip_text (disconnect_camera s) = ip_text s"
  by (cases "camera s"; simp add: disconnect_no_camera disconnect_fields)+

















subsection \<open>Every run of the application\<close>




subsection \<open>The entered address\<close>








subsection \<open>Loading and saving the configuration\<close>

lemma dict_set_new: "k \<notin> set (map fst d) \<Longrightarrow> dict_set k v d = d @ [(k, v)]"
  by (induction d) auto

lemma ensure_keys_obj:
  "ensure_keys default_items (JObj d)
     = Inr (JObj (d @ filter (\<lambda>kv. fst kv \<notin> set (map fst d)) default_items))"
  by (simp add: default_items_def dict_set_new)

lemma map_of_filter_missing:
  "k \<notin> set (map fst d) \<Longrightarrow>
   map_of (filter (\<lambda>kv. fst kv \<notin> set (map fst d)) items) k = map_of items k"
  by (induction items) auto

lemma map_of_backfilled:
  "map_of (d @ filter (\<lambda>kv. fst kv \<notin> set (map fst d)) items) k
     = (case map_of d k of None \<Rightarrow> map_of items k | Some v \<Rightarrow> Some v)"
proof (cases "map_of d k")
  case None
  then have "k \<notin> set (map fst d)" by (simp add: map_of_eq_None_iff)
  then show ?thesis using None map_of_filter_missing [of k d items] by (simp add: map_add_def)
next
  case (Some v)
  then show ?thesis by (simp add: map_add_def)
qed

lemma load_config_obj:
  "load_config (Document (JObj d))
     = Inr (JObj (d @ filter (\<lambda>kv. fst kv \<notin> set (map fst d)) default_items))"
  by (simp add: load_config_def ensure_keys_obj)



lemma load_config_complete:
  assumes "set (map fst default_items) \<subseteq> set (map fst d)"
  shows "load_config (Document (JObj d)) = Inr (JObj d)"
proof -
  have "filter (\<lambda>kv. fst kv \<notin> set (map fst d)) default_items = []"
    using assms by (auto simp: filter_empty_conv)
  then show ?thesis by (simp add: load_config_obj)
qed

lemma getitem_obj: "py_getitem (JObj d) k = Inr v \<longleftrightarrow> map_of d k = Some v"
  by (simp split: option.splits)

lemma add_printer_other_keys:
  assumes "add_printer a pc = Inr pc'" and "k \<noteq> ''recent_printers''" and "k \<noteq> ''last_used_printer''"
  shows "py_getitem (config pc') k = py_getitem (config pc) k"
    and "a \<noteq> [] \<Longrightarrow> writable pc \<Longrightarrow> CONFIG_FILE pc' = Document (config pc')"
  using assms
  by (cases "config pc";
      auto simp: add_printer_def Let_def save_config_def map_of_dict_set
        split: option.splits json.splits sum.splits if_splits)+

lemma set_include_timestamp_other_keys:
  assumes "set_include_timestamp b pc = Inr pc'" and "k \<noteq> ''include_timestamp''"
  shows "py_getitem (config pc') k = py_getitem (config pc) k"
    and "writable pc \<Longrightarrow> CONFIG_FILE pc' = Document (config pc')"
  using assms
  by (cases "config pc";
      auto simp: set_include_timestamp_def save_config_def map_of_dict_set
        split: option.splits sum.splits if_splits)+

text \<open>
  Claim C10. Take a configuration file that is a JSON object and any key \<open>k\<close> it has
  with its value \<open>v\<close>. Loading gives a record in which \<open>k\<close> still has the value \<open>v\<close>.
  Saving the loaded record writes all of it, so the file read again gives the same
  record (when the file cannot be written it is as before, which loads to the same
  record). If \<open>k\<close> is not one of the three schema keys, \<open>add_printer\<close> and
  \<open>set_include_timestamp\<close> leave its value as it is, and the record they write to the
  file has it.
\<close>

theorem unknown_keys_preserved:
  assumes "map_of d k = Some v"
  shows "\<exists>pc. PrinterConfig_init (Document (JObj d)) w = Inr pc
       \<and> py_getitem (config pc) k = Inr v
       \<and> CONFIG_FILE (save_config pc) = Document (if w then config pc else JObj d)
       \<and> load_config (CONFIG_FILE (save_config pc)) = Inr (config pc)
       \<and> (k \<notin> {''recent_printers'', ''last_used_printer'', ''include_timestamp''} \<longrightarrow>
            (\<forall>a pc'. add_printer a pc = Inr pc' \<longrightarrow>
               py_getitem (config pc') k = Inr v
               \<and> (a \<noteq> [] \<and> w \<longrightarrow> CONFIG_FILE pc' = Document (config pc')))
          \<and> (\<forall>b pc'. set_include_timestamp b pc = Inr pc' \<longrightarrow>
               py_getitem (config pc') k = Inr v
               \<and> (w \<longrightarrow> CONFIG_FILE pc' = Document (config pc'))))"
proof -
  define d' where "d' = d @ filter (\<lambda>kv. fst kv \<notin> set (map fst d)) default_items"
  define pc where "pc = \<lparr>config = JObj d', CONFIG_FILE = Document (JObj d), writable = w\<rparr>"
  have init: "PrinterConfig_init (Document (JObj d)) w = Inr pc"
    by (simp add: PrinterConfig_init_def load_config_obj pc_def d'_def)
  have kept: "py_getitem (config pc) k = Inr v"
    using assms by (simp add: pc_def d'_def map_of_backfilled)
  have all_keys: "set (map fst default_items) \<subseteq> set (map fst d')"
    by (auto simp: d'_def)
  have reload: "load_config (Document (JObj d')) = Inr (JObj d')"
    by (rule load_config_complete [OF all_keys])
  have first: "load_config (Document (JObj d)) = Inr (JObj d')"
    by (simp add: load_config_obj d'_def)
  have saved: "CONFIG_FILE (save_config pc) = Document (if w then config pc else JObj d)"
    by (simp add: save_config_def pc_def)
  have again: "load_config (CONFIG_FILE (save_config pc)) = Inr (config pc)"
    using reload first by (simp add: save_config_def pc_def)
  have add: "py_getitem (config pc') k = Inr v
               \<and> (a \<noteq> [] \<and> w \<longrightarrow> CONFIG_FILE pc' = Document (config pc'))"
    if u: "k \<notin> {''recent_printers'', ''last_used_printer'', ''include_timestamp''}"
      and ap: "add_printer a pc = Inr pc'" for a pc'
    using add_printer_other_keys [OF ap, of k] u kept by (simp add: pc_def)
  have ts: "py_getitem (config pc') k = Inr v
               \<and> (w \<longrightarrow> CONFIG_FILE pc' = Document (config pc'))"
    if u: "k \<notin> {''recent_printers'', ''last_used_printer'', ''include_timestamp''}"
      and st: "set_include_timestamp b pc = Inr pc'" for b pc'
    using set_include_timestamp_other_keys [OF st, of k] u kept by (simp add: pc_def)
  show ?thesis
    using init kept saved again add ts by blast
qed

theorem unknown_keys_preserved_witness:
  "map_of [(''theme'', JStr ''dark''), (''last_used_printer'', JStr ''10.0.0.5'')] ''theme''
     = Some (JStr ''dark'')
   \<and> (\<exists>pc. PrinterConfig_init
              (Document (JObj [(''theme'', JStr ''dark''), (''last_used_printer'', JStr ''10.0.0.5'')]))
              True = Inr pc
         \<and> py_getitem (config pc) ''theme'' = Inr (JStr ''dark'')
         \<and> load_config (CONFIG_FILE (save_config pc)) = Inr (config pc))"
proof -
  have m: "map_of [(''theme'', JStr ''dark''), (''last_used_printer'', JStr ''10.0.0.5'')] ''theme''
     = Some (JStr ''dark'')"
    by simp
  from unknown_keys_preserved [OF m, of True]
  have "\<exists>pc. PrinterConfig_init
              (Document (JObj [(''theme'', JStr ''dark''), (''last_used_printer'', JStr ''10.0.0.5'')]))
              True = Inr pc
         \<and> py_getitem (config pc) ''theme'' = Inr (JStr ''dark'')
         \<and> load_config (CONFIG_FILE (save_config pc)) = Inr (config pc)"
    by blast
  then show ?thesis using m by blast
qed

subsection \<open>The next snapshot name\<close>































end
